theory Spec2Isabelle
  imports Main "HOL-Library.AList" "HOL-Library.Multiset"
begin

section \<open>Shared schema (shared/schema.ts)\<close>

text \<open>
  A \<^verbatim>\<open>Date\<close> is its \<^verbatim>\<open>getTime()\<close> value, milliseconds as an integer. Every
  \<^verbatim>\<open>new Date()\<close> of the source is a parameter of the operation that makes the call,
  in the order of the calls.

  The TypeScript enum \<^verbatim>\<open>BoxStatus\<close> has string values and is a plain string at run
  time; \<^verbatim>\<open>boxData.status as BoxStatus\<close> is a compile-time cast that checks nothing.
  A status is therefore a \<^typ>\<open>string\<close>, and the six members are constants.
  Strings are ASCII.
\<close>

type_synonym Date = int

type_synonym BoxStatus = string

definition Packed :: BoxStatus where "Packed = ''packed''"
definition Staging :: BoxStatus where "Staging = ''staging''"
definition Loaded :: BoxStatus where "Loaded = ''loaded''"
definition Out :: BoxStatus where "Out = ''out''"
definition Delivered :: BoxStatus where "Delivered = ''delivered''"
definition Unpacked :: BoxStatus where "Unpacked = ''unpacked''"

text \<open>\<^verbatim>\<open>Object.values(BoxStatus)\<close>, in declaration order.\<close>

definition BoxStatus_values :: "BoxStatus list" where
  "BoxStatus_values = [Packed, Staging, Loaded, Out, Delivered, Unpacked]"

datatype Depth = Front | Middle | Back
datatype Horizontal = Left | Center | Right
datatype Vertical = Low | Mid | High

record BoxPosition =
  depth :: Depth
  horizontal :: Horizontal
  vertical :: Vertical

text \<open>The string each axis value is at run time, as a template literal prints it.\<close>

fun depth_str :: "Depth \<Rightarrow> string" where
  "depth_str Front = ''front''"
| "depth_str Middle = ''middle''"
| "depth_str Back = ''back''"

fun horizontal_str :: "Horizontal \<Rightarrow> string" where
  "horizontal_str Left = ''left''"
| "horizontal_str Center = ''center''"
| "horizontal_str Right = ''right''"

fun vertical_str :: "Vertical \<Rightarrow> string" where
  "vertical_str Low = ''low''"
| "vertical_str Mid = ''mid''"
| "vertical_str High = ''high''"

text \<open>
  Field names carry a prefix for the record they belong to (\<open>b_\<close> Box, \<open>ib_\<close> InsertBox,
  \<open>pb_\<close> Partial<InsertBox>, \<open>a_\<close> Activity, \<open>ia_\<close> InsertActivity, \<open>q_\<close> QrCode,
  \<open>iq_\<close> InsertQrCode, \<open>o_\<close> Owner, \<open>io_\<close> InsertOwner, \<open>po_\<close> Partial<InsertOwner>),
  since \<open>id\<close>, \<open>boxId\<close>, \<open>status\<close>, \<open>createdAt\<close> occur in several of them.
  A nullable column and an optional property are an \<open>option\<close>.
\<close>

record Box =
  b_id :: nat
  b_boxNumber :: int
  b_owner :: string
  b_room :: string
  b_contents :: string
  b_status :: BoxStatus
  b_position :: "BoxPosition option"
  b_createdAt :: Date
  b_updatedAt :: Date

text \<open>
  \<open>ib_status = None\<close> is a \<^verbatim>\<open>status\<close> that is missing, null or any other
  non-string: \<^verbatim>\<open>typeof boxData.status === 'string'\<close> is all that createBox asks.
\<close>

record InsertBox =
  ib_boxNumber :: int
  ib_owner :: string
  ib_room :: string
  ib_contents :: string
  ib_status :: "string option"

text \<open>\<open>None\<close> is a property that is \<^verbatim>\<open>undefined\<close>.\<close>

record PartialInsertBox =
  pb_boxNumber :: "int option"
  pb_owner :: "string option"
  pb_room :: "string option"
  pb_contents :: "string option"
  pb_status :: "string option"

record Activity =
  a_id :: nat
  a_boxId :: "nat option"
  a_type :: string
  a_description :: string
  a_timestamp :: Date

record InsertActivity =
  ia_boxId :: "nat option"
  ia_type :: string
  ia_description :: string

record QrCode =
  q_id :: nat
  q_boxId :: nat
  q_data :: string
  q_createdAt :: Date

record InsertQrCode =
  iq_boxId :: nat
  iq_data :: string

record Owner =
  o_id :: nat
  o_name :: string
  o_color :: string
  o_createdAt :: Date
  o_updatedAt :: Date

record InsertOwner =
  io_name :: string
  io_color :: string

record PartialInsertOwner =
  po_name :: "string option"
  po_color :: "string option"

section \<open>JavaScript primitives used by the storage layer\<close>

text \<open>Decimal printing of an integer, as \<^verbatim>\<open>${box.boxNumber}\<close> does.\<close>

definition digit_char :: "nat \<Rightarrow> char" where
  "digit_char d = char_of (48 + d)"

fun show_nat :: "nat \<Rightarrow> string" where
  "show_nat n = (if n < 10 then [digit_char n] else show_nat (n div 10) @ [digit_char (n mod 10)])"

declare show_nat.simps [simp del]

definition show_int :: "int \<Rightarrow> string" where
  "show_int i = (if i < 0 then CHR ''-'' # show_nat (nat (- i)) else show_nat (nat i))"

text \<open>\<^verbatim>\<open>String.prototype.toLowerCase\<close> on ASCII: A..Z go to a..z, the rest stays.\<close>

definition toLowerCase_char :: "char \<Rightarrow> char" where
  "toLowerCase_char c =
     (if 65 \<le> (of_char c :: nat) \<and> (of_char c :: nat) \<le> 90 then char_of ((of_char c :: nat) + 32) else c)"

definition toLowerCase :: "string \<Rightarrow> string" where
  "toLowerCase s = map toLowerCase_char s"

text \<open>
  \<^verbatim>\<open>xs.sort((a, b) => b.timestamp - a.timestamp)\<close>: \<^verbatim>\<open>Array.prototype.sort\<close>
  is a stable sort, here by descending timestamp. \<^const>\<open>sort_key\<close> is a stable
  insertion sort, and a stable sort has one result only.
\<close>

definition sort_newest_first :: "Activity list \<Rightarrow> Activity list" where
  "sort_newest_first xs = sort_key (\<lambda>a. - a_timestamp a) xs"


text \<open>The \<^verbatim>\<open>typeSafeData\<close> of updateBox, spread over a box: only defined properties are copied.\<close>

definition typeSafeData :: "PartialInsertBox \<Rightarrow> Box \<Rightarrow> Box" where
  "typeSafeData boxData box =
     box\<lparr> b_boxNumber := (case pb_boxNumber boxData of None \<Rightarrow> b_boxNumber box | Some v \<Rightarrow> v),
          b_owner := (case pb_owner boxData of None \<Rightarrow> b_owner box | Some v \<Rightarrow> v),
          b_room := (case pb_room boxData of None \<Rightarrow> b_room box | Some v \<Rightarrow> v),
          b_contents := (case pb_contents boxData of None \<Rightarrow> b_contents box | Some v \<Rightarrow> v),
          b_status := (case pb_status boxData of None \<Rightarrow> b_status box | Some v \<Rightarrow> v) \<rparr>"

text \<open>The status check of createBox, the same text in both classes.\<close>

definition boxStatus_of :: "string option \<Rightarrow> BoxStatus" where
  "boxStatus_of st =
     (case st of
        Some v \<Rightarrow> if v \<notin> set BoxStatus_values then Packed else v
      | None \<Rightarrow> Packed)"

text \<open>The position part of the two updateBoxPosition descriptions.\<close>

definition position_str :: "BoxPosition \<Rightarrow> string" where
  "position_str p = depth_str (depth p) @ ''-'' @ horizontal_str (horizontal p) @ ''-'' @ vertical_str (vertical p)"

definition truthy :: "string option \<Rightarrow> bool" where
  "truthy st = (case st of None \<Rightarrow> False | Some v \<Rightarrow> v \<noteq> [])"

definition position_activity :: "nat \<Rightarrow> Box \<Rightarrow> BoxPosition \<Rightarrow> BoxStatus option \<Rightarrow> InsertActivity" where
  "position_activity bid box position status =
     (if status = Some Loaded
      then \<lparr> ia_boxId = Some bid, ia_type = ''loaded'',
             ia_description = ''Box #'' @ show_int (b_boxNumber box) @ '' loaded onto truck ('' @ position_str position @ '')'' \<rparr>
      else \<lparr> ia_boxId = Some bid, ia_type = ''moved'',
             ia_description = ''Box #'' @ show_int (b_boxNumber box) @ '' moved to position '' @ position_str position \<rparr>)"

section \<open>In-memory storage (class MemStorage)\<close>

text \<open>
  A JavaScript \<^verbatim>\<open>Map\<close> is an association list in insertion order:
  \<^verbatim>\<open>get\<close> is \<^const>\<open>map_of\<close>, \<^verbatim>\<open>set\<close> is \<^const>\<open>AList.update\<close> (an existing key
  keeps its place, a new key goes to the end), \<^verbatim>\<open>delete\<close> is \<^const>\<open>AList.delete\<close>,
  \<^verbatim>\<open>values()\<close> is \<open>map snd\<close>.
\<close>

record MemStorage =
  boxes :: "(nat \<times> Box) list"
  activities :: "(nat \<times> Activity) list"
  qrCodes :: "(nat \<times> QrCode) list"
  owners :: "(nat \<times> Owner) list"
  boxCounter :: nat
  activityCounter :: nat
  qrCodeCounter :: nat
  ownerCounter :: nat

definition MemStorage_new :: MemStorage where
  "MemStorage_new =
     \<lparr> boxes = [], activities = [], qrCodes = [], owners = [],
       boxCounter = 1, activityCounter = 1, qrCodeCounter = 1, ownerCounter = 1 \<rparr>"

definition getBoxes :: "MemStorage \<Rightarrow> Box list" where
  "getBoxes s = map snd (boxes s)"

definition getBox :: "nat \<Rightarrow> MemStorage \<Rightarrow> Box option" where
  "getBox bid s = map_of (boxes s) bid"

definition getBoxByNumber :: "int \<Rightarrow> MemStorage \<Rightarrow> Box option" where
  "getBoxByNumber boxNumber s = find (\<lambda>box. b_boxNumber box = boxNumber) (map snd (boxes s))"

definition createActivity :: "InsertActivity \<Rightarrow> Date \<Rightarrow> MemStorage \<Rightarrow> Activity \<times> MemStorage" where
  "createActivity activityData t s =
     (let aid = activityCounter s;
          activity = \<lparr> a_id = aid, a_boxId = ia_boxId activityData, a_type = ia_type activityData,
                       a_description = ia_description activityData, a_timestamp = t \<rparr>
      in (activity, s\<lparr> activityCounter := aid + 1, activities := AList.update aid activity (activities s) \<rparr>))"

definition createBox :: "InsertBox \<Rightarrow> Date \<Rightarrow> Date \<Rightarrow> MemStorage \<Rightarrow> Box \<times> MemStorage" where
  "createBox boxData now t s =
     (let bid = boxCounter s;
          box = \<lparr> b_id = bid, b_boxNumber = ib_boxNumber boxData, b_owner = ib_owner boxData,
                  b_room = ib_room boxData, b_contents = ib_contents boxData,
                  b_status = boxStatus_of (ib_status boxData), b_position = None,
                  b_createdAt = now, b_updatedAt = now \<rparr>;
          s1 = s\<lparr> boxCounter := bid + 1, boxes := AList.update bid box (boxes s) \<rparr>;
          (_, s2) = createActivity
                      \<lparr> ia_boxId = Some bid, ia_type = ''created'',
                        ia_description = ''Box #'' @ show_int (b_boxNumber box) @ '' created'' \<rparr> t s1
      in (box, s2))"

definition updateBox :: "nat \<Rightarrow> PartialInsertBox \<Rightarrow> Date \<Rightarrow> Date \<Rightarrow> MemStorage \<Rightarrow> Box option \<times> MemStorage" where
  "updateBox bid boxData now t s =
     (case map_of (boxes s) bid of
        None \<Rightarrow> (None, s)
      | Some box \<Rightarrow>
          let updatedBox = (typeSafeData boxData box)\<lparr> b_updatedAt := now \<rparr>;
              s1 = s\<lparr> boxes := AList.update bid updatedBox (boxes s) \<rparr>;
              (_, s2) = createActivity
                          \<lparr> ia_boxId = Some bid, ia_type = ''updated'',
                            ia_description = ''Box #'' @ show_int (b_boxNumber box) @ '' updated'' \<rparr> t s1
          in (Some updatedBox, s2))"

definition updateBoxPosition ::
    "nat \<Rightarrow> BoxPosition \<Rightarrow> BoxStatus option \<Rightarrow> Date \<Rightarrow> Date \<Rightarrow> MemStorage \<Rightarrow> Box option \<times> MemStorage" where
  "updateBoxPosition bid position status now t s =
     (case map_of (boxes s) bid of
        None \<Rightarrow> (None, s)
      | Some box \<Rightarrow>
          let updatedBox = box\<lparr> b_position := Some position,
                                b_status := (if truthy status then the status else b_status box),
                                b_updatedAt := now \<rparr>;
              s1 = s\<lparr> boxes := AList.update bid updatedBox (boxes s) \<rparr>;
              (_, s2) = createActivity (position_activity bid box position status) t s1
          in (Some updatedBox, s2))"

definition updateBoxStatus :: "nat \<Rightarrow> BoxStatus \<Rightarrow> Date \<Rightarrow> Date \<Rightarrow> MemStorage \<Rightarrow> Box option \<times> MemStorage" where
  "updateBoxStatus bid status now t s =
     (case map_of (boxes s) bid of
        None \<Rightarrow> (None, s)
      | Some box \<Rightarrow>
          let shouldClearPosition = (b_status box = Loaded \<and> status \<noteq> Loaded);
              updatedBox = box\<lparr> b_status := status,
                                b_position := (if shouldClearPosition then None else b_position box),
                                b_updatedAt := now \<rparr>;
              s1 = s\<lparr> boxes := AList.update bid updatedBox (boxes s) \<rparr>;
              (_, s2) = createActivity
                          \<lparr> ia_boxId = Some bid, ia_type = toLowerCase status,
                            ia_description = ''Box #'' @ show_int (b_boxNumber box) @ '' marked as '' @ status \<rparr> t s1
          in (Some updatedBox, s2))"

text \<open>
  The \<^verbatim>\<open>forEach\<close> of deleteBox runs over a copy of the entries
  (\<^verbatim>\<open>Array.from(this.qrCodes.entries())\<close>) and deletes from the map.
\<close>

definition deleteQrCodesOf :: "nat \<Rightarrow> (nat \<times> QrCode) list \<Rightarrow> (nat \<times> QrCode) list" where
  "deleteQrCodesOf bid qs =
     fold (\<lambda>(qrId, qrCode) m. if q_boxId qrCode = bid then AList.delete qrId m else m) qs qs"

definition deleteBox :: "nat \<Rightarrow> Date \<Rightarrow> MemStorage \<Rightarrow> bool \<times> MemStorage" where
  "deleteBox bid t s =
     (case map_of (boxes s) bid of
        None \<Rightarrow> (False, s)
      | Some box \<Rightarrow>
          let s1 = s\<lparr> boxes := AList.delete bid (boxes s) \<rparr>;
              s2 = s1\<lparr> qrCodes := deleteQrCodesOf bid (qrCodes s1) \<rparr>;
              (_, s3) = createActivity
                          \<lparr> ia_boxId = Some bid, ia_type = ''deleted'',
                            ia_description = ''Box #'' @ show_int (b_boxNumber box) @ '' deleted'' \<rparr> t s2
          in (True, s3))"


definition getBoxActivities :: "nat \<Rightarrow> MemStorage \<Rightarrow> Activity list" where
  "getBoxActivities boxId s =
     sort_newest_first (filter (\<lambda>activity. a_boxId activity = Some boxId) (map snd (activities s)))"

definition getQrCode :: "nat \<Rightarrow> MemStorage \<Rightarrow> QrCode option" where
  "getQrCode qid s = map_of (qrCodes s) qid"

definition getQrCodeByBoxId :: "nat \<Rightarrow> MemStorage \<Rightarrow> QrCode option" where
  "getQrCodeByBoxId boxId s = find (\<lambda>qrCode. q_boxId qrCode = boxId) (map snd (qrCodes s))"

definition createQrCode :: "InsertQrCode \<Rightarrow> Date \<Rightarrow> MemStorage \<Rightarrow> QrCode \<times> MemStorage" where
  "createQrCode qrCodeData now s =
     (let qid = qrCodeCounter s;
          qrCode = \<lparr> q_id = qid, q_boxId = iq_boxId qrCodeData, q_data = iq_data qrCodeData,
                     q_createdAt = now \<rparr>
      in (qrCode, s\<lparr> qrCodeCounter := qid + 1, qrCodes := AList.update qid qrCode (qrCodes s) \<rparr>))"

definition getOwners :: "MemStorage \<Rightarrow> Owner list" where
  "getOwners s = map snd (owners s)"

definition getOwner :: "nat \<Rightarrow> MemStorage \<Rightarrow> Owner option" where
  "getOwner oid s = map_of (owners s) oid"

definition createOwner :: "InsertOwner \<Rightarrow> Date \<Rightarrow> MemStorage \<Rightarrow> Owner \<times> MemStorage" where
  "createOwner ownerData now s =
     (let oid = ownerCounter s;
          owner = \<lparr> o_id = oid, o_name = io_name ownerData, o_color = io_color ownerData,
                    o_createdAt = now, o_updatedAt = now \<rparr>
      in (owner, s\<lparr> ownerCounter := oid + 1, owners := AList.update oid owner (owners s) \<rparr>))"

definition ownerData_spread :: "PartialInsertOwner \<Rightarrow> Owner \<Rightarrow> Owner" where
  "ownerData_spread ownerData owner =
     owner\<lparr> o_name := (case po_name ownerData of None \<Rightarrow> o_name owner | Some v \<Rightarrow> v),
            o_color := (case po_color ownerData of None \<Rightarrow> o_color owner | Some v \<Rightarrow> v) \<rparr>"

definition updateOwner :: "nat \<Rightarrow> PartialInsertOwner \<Rightarrow> Date \<Rightarrow> MemStorage \<Rightarrow> Owner option \<times> MemStorage" where
  "updateOwner oid ownerData now s =
     (case map_of (owners s) oid of
        None \<Rightarrow> (None, s)
      | Some owner \<Rightarrow>
          let updatedOwner = (ownerData_spread ownerData owner)\<lparr> o_updatedAt := now \<rparr>
          in (Some updatedOwner, s\<lparr> owners := AList.update oid updatedOwner (owners s) \<rparr>))"

definition deleteOwner :: "nat \<Rightarrow> MemStorage \<Rightarrow> bool \<times> MemStorage" where
  "deleteOwner oid s =
     (case map_of (owners s) oid of
        None \<Rightarrow> (False, s)
      | Some owner \<Rightarrow>
          let boxesWithOwner =
                filter (\<lambda>box. toLowerCase (b_owner box) = toLowerCase (o_name owner)) (map snd (boxes s))
          in if length boxesWithOwner > 0 then (False, s)
             else (True, s\<lparr> owners := AList.delete oid (owners s) \<rparr>))"

section \<open>The database behind class DatabaseStorage\<close>

text \<open>
  The tables are those of shared/schema.ts: every \<^verbatim>\<open>id\<close> is a \<^verbatim>\<open>serial\<close> primary
  key, \<^verbatim>\<open>activities.box_id\<close> (nullable) and \<^verbatim>\<open>qr_codes.box_id\<close> reference
  \<^verbatim>\<open>boxes.id\<close> with \<^verbatim>\<open>onDelete: 'cascade'\<close>. A table is the list of its rows and
  a sequence is its next value. The statements the class issues through drizzle have
  their PostgreSQL meaning: an insert draws the id from the sequence and is rejected
  when the key exists or a referenced box does not; deleting a box deletes the rows
  that reference it; every statement commits on its own, so a failure later in an
  operation leaves the earlier statements in place. A result is the outcome together
  with the database afterwards.
\<close>

datatype db_error = UniqueViolation | ForeignKeyViolation | NegativeLimit

record DatabaseStorage =
  boxes_table :: "Box list"
  activities_table :: "Activity list"
  qr_codes_table :: "QrCode list"
  owners_table :: "Owner list"
  boxes_id_seq :: nat
  activities_id_seq :: nat
  qr_codes_id_seq :: nat
  owners_id_seq :: nat

definition DatabaseStorage_new :: DatabaseStorage where
  "DatabaseStorage_new =
     \<lparr> boxes_table = [], activities_table = [], qr_codes_table = [], owners_table = [],
       boxes_id_seq = 1, activities_id_seq = 1, qr_codes_id_seq = 1, owners_id_seq = 1 \<rparr>"

text \<open>\<^verbatim>\<open>result.length > 0 ? result[0] : undefined\<close>, and \<^verbatim>\<open>const [x] = rows\<close>.\<close>

definition first_row :: "'a list \<Rightarrow> 'a option" where
  "first_row rows = (case rows of [] \<Rightarrow> None | x # _ \<Rightarrow> Some x)"

text \<open>
  \<^verbatim>\<open>orderBy(desc(column))\<close>. SQL leaves the order of rows with equal keys open; the
  model keeps them in table order.
\<close>

definition order_by_desc :: "('a \<Rightarrow> int) \<Rightarrow> 'a list \<Rightarrow> 'a list" where
  "order_by_desc col rows = sort_key (\<lambda>r. - col r) rows"

definition insert_box :: "(nat \<Rightarrow> Box) \<Rightarrow> DatabaseStorage \<Rightarrow> (db_error + Box) \<times> DatabaseStorage" where
  "insert_box row s =
     (let bid = boxes_id_seq s; s1 = s\<lparr> boxes_id_seq := bid + 1 \<rparr>
      in if bid \<in> b_id ` set (boxes_table s) then (Inl UniqueViolation, s1)
         else (Inr (row bid), s1\<lparr> boxes_table := boxes_table s @ [row bid] \<rparr>))"

definition insert_activity :: "(nat \<Rightarrow> Activity) \<Rightarrow> DatabaseStorage \<Rightarrow> (db_error + Activity) \<times> DatabaseStorage" where
  "insert_activity row s =
     (let aid = activities_id_seq s; s1 = s\<lparr> activities_id_seq := aid + 1 \<rparr>
      in if aid \<in> a_id ` set (activities_table s) then (Inl UniqueViolation, s1)
         else case a_boxId (row aid) of
                None \<Rightarrow> (Inr (row aid), s1\<lparr> activities_table := activities_table s @ [row aid] \<rparr>)
              | Some bid \<Rightarrow>
                  if bid \<in> b_id ` set (boxes_table s)
                  then (Inr (row aid), s1\<lparr> activities_table := activities_table s @ [row aid] \<rparr>)
                  else (Inl ForeignKeyViolation, s1))"

definition insert_qr_code :: "(nat \<Rightarrow> QrCode) \<Rightarrow> DatabaseStorage \<Rightarrow> (db_error + QrCode) \<times> DatabaseStorage" where
  "insert_qr_code row s =
     (let qid = qr_codes_id_seq s; s1 = s\<lparr> qr_codes_id_seq := qid + 1 \<rparr>
      in if qid \<in> q_id ` set (qr_codes_table s) then (Inl UniqueViolation, s1)
         else if q_boxId (row qid) \<in> b_id ` set (boxes_table s)
              then (Inr (row qid), s1\<lparr> qr_codes_table := qr_codes_table s @ [row qid] \<rparr>)
              else (Inl ForeignKeyViolation, s1))"

definition insert_owner :: "(nat \<Rightarrow> Owner) \<Rightarrow> DatabaseStorage \<Rightarrow> (db_error + Owner) \<times> DatabaseStorage" where
  "insert_owner row s =
     (let oid = owners_id_seq s; s1 = s\<lparr> owners_id_seq := oid + 1 \<rparr>
      in if oid \<in> o_id ` set (owners_table s) then (Inl UniqueViolation, s1)
         else (Inr (row oid), s1\<lparr> owners_table := owners_table s @ [row oid] \<rparr>))"

text \<open>\<^verbatim>\<open>update(boxes).set(...).where(eq(boxes.id, id)).returning()\<close>.\<close>

definition update_boxes :: "(Box \<Rightarrow> Box) \<Rightarrow> nat \<Rightarrow> DatabaseStorage \<Rightarrow> Box list \<times> DatabaseStorage" where
  "update_boxes set_clause bid s =
     (let rows = map (\<lambda>b. if b_id b = bid then set_clause b else b) (boxes_table s)
      in (filter (\<lambda>b. b_id b = bid) rows, s\<lparr> boxes_table := rows \<rparr>))"

definition update_owners :: "(Owner \<Rightarrow> Owner) \<Rightarrow> nat \<Rightarrow> DatabaseStorage \<Rightarrow> Owner list \<times> DatabaseStorage" where
  "update_owners set_clause oid s =
     (let rows = map (\<lambda>ow. if o_id ow = oid then set_clause ow else ow) (owners_table s)
      in (filter (\<lambda>ow. o_id ow = oid) rows, s\<lparr> owners_table := rows \<rparr>))"

text \<open>\<^verbatim>\<open>delete(boxes).where(eq(boxes.id, id))\<close>, with the two cascades.\<close>

definition delete_boxes :: "nat \<Rightarrow> DatabaseStorage \<Rightarrow> DatabaseStorage" where
  "delete_boxes bid s =
     s\<lparr> boxes_table := filter (\<lambda>b. b_id b \<noteq> bid) (boxes_table s),
        activities_table := filter (\<lambda>a. a_boxId a \<noteq> Some bid) (activities_table s),
        qr_codes_table := filter (\<lambda>q. q_boxId q \<noteq> bid) (qr_codes_table s) \<rparr>"

definition delete_owners :: "nat \<Rightarrow> DatabaseStorage \<Rightarrow> DatabaseStorage" where
  "delete_owners oid s = s\<lparr> owners_table := filter (\<lambda>ow. o_id ow \<noteq> oid) (owners_table s) \<rparr>"

section \<open>Database storage (class DatabaseStorage)\<close>

definition db_getBoxes :: "DatabaseStorage \<Rightarrow> Box list" where
  "db_getBoxes s = order_by_desc b_updatedAt (boxes_table s)"

definition db_getBox :: "nat \<Rightarrow> DatabaseStorage \<Rightarrow> Box option" where
  "db_getBox bid s = first_row (filter (\<lambda>b. b_id b = bid) (boxes_table s))"

definition db_getBoxByNumber :: "int \<Rightarrow> DatabaseStorage \<Rightarrow> Box option" where
  "db_getBoxByNumber boxNumber s = first_row (filter (\<lambda>b. b_boxNumber b = boxNumber) (boxes_table s))"

definition db_createActivity ::
    "InsertActivity \<Rightarrow> Date \<Rightarrow> DatabaseStorage \<Rightarrow> (db_error + Activity) \<times> DatabaseStorage" where
  "db_createActivity activityData t s =
     insert_activity
       (\<lambda>aid. \<lparr> a_id = aid, a_boxId = ia_boxId activityData, a_type = ia_type activityData,
                a_description = ia_description activityData, a_timestamp = t \<rparr>) s"

definition db_createBox ::
    "InsertBox \<Rightarrow> Date \<Rightarrow> Date \<Rightarrow> DatabaseStorage \<Rightarrow> (db_error + Box) \<times> DatabaseStorage" where
  "db_createBox boxData now t s =
     (case insert_box
             (\<lambda>bid. \<lparr> b_id = bid, b_boxNumber = ib_boxNumber boxData, b_owner = ib_owner boxData,
                      b_room = ib_room boxData, b_contents = ib_contents boxData,
                      b_status = boxStatus_of (ib_status boxData), b_position = None,
                      b_createdAt = now, b_updatedAt = now \<rparr>) s of
        (Inl e, s1) \<Rightarrow> (Inl e, s1)
      | (Inr box, s1) \<Rightarrow>
          (case db_createActivity
                  \<lparr> ia_boxId = Some (b_id box), ia_type = ''created'',
                    ia_description = ''Box #'' @ show_int (b_boxNumber box) @ '' created'' \<rparr> t s1 of
             (Inl e, s2) \<Rightarrow> (Inl e, s2)
           | (Inr _, s2) \<Rightarrow> (Inr box, s2)))"

definition db_updateBox ::
    "nat \<Rightarrow> PartialInsertBox \<Rightarrow> Date \<Rightarrow> Date \<Rightarrow> DatabaseStorage \<Rightarrow> (db_error + Box option) \<times> DatabaseStorage" where
  "db_updateBox bid boxData now t s =
     (case db_getBox bid s of
        None \<Rightarrow> (Inr None, s)
      | Some box \<Rightarrow>
          let (rows, s1) = update_boxes (\<lambda>b. (typeSafeData boxData b)\<lparr> b_updatedAt := now \<rparr>) bid s;
              updatedBox = first_row rows
          in case db_createActivity
                    \<lparr> ia_boxId = Some bid, ia_type = ''updated'',
                      ia_description = ''Box #'' @ show_int (b_boxNumber box) @ '' updated'' \<rparr> t s1 of
               (Inl e, s2) \<Rightarrow> (Inl e, s2)
             | (Inr _, s2) \<Rightarrow> (Inr updatedBox, s2))"

definition db_updateBoxPosition ::
    "nat \<Rightarrow> BoxPosition \<Rightarrow> BoxStatus option \<Rightarrow> Date \<Rightarrow> Date \<Rightarrow> DatabaseStorage
       \<Rightarrow> (db_error + Box option) \<times> DatabaseStorage" where
  "db_updateBoxPosition bid position status now t s =
     (case db_getBox bid s of
        None \<Rightarrow> (Inr None, s)
      | Some box \<Rightarrow>
          let (rows, s1) = update_boxes
                             (\<lambda>b. b\<lparr> b_position := Some position,
                                     b_status := (if truthy status then the status else b_status b),
                                     b_updatedAt := now \<rparr>) bid s;
              updatedBox = first_row rows
          in case db_createActivity (position_activity bid box position status) t s1 of
               (Inl e, s2) \<Rightarrow> (Inl e, s2)
             | (Inr _, s2) \<Rightarrow> (Inr updatedBox, s2))"

definition db_updateBoxStatus ::
    "nat \<Rightarrow> BoxStatus \<Rightarrow> Date \<Rightarrow> Date \<Rightarrow> DatabaseStorage \<Rightarrow> (db_error + Box option) \<times> DatabaseStorage" where
  "db_updateBoxStatus bid status now t s =
     (case db_getBox bid s of
        None \<Rightarrow> (Inr None, s)
      | Some box \<Rightarrow>
          let shouldClearPosition = (b_status box = Loaded \<and> status \<noteq> Loaded);
              (rows, s1) = update_boxes
                             (\<lambda>b. b\<lparr> b_status := status,
                                     b_position := (if shouldClearPosition then None else b_position box),
                                     b_updatedAt := now \<rparr>) bid s;
              updatedBox = first_row rows
          in case db_createActivity
                    \<lparr> ia_boxId = Some bid, ia_type = toLowerCase status,
                      ia_description = ''Box #'' @ show_int (b_boxNumber box) @ '' marked as '' @ status \<rparr> t s1 of
               (Inl e, s2) \<Rightarrow> (Inl e, s2)
             | (Inr _, s2) \<Rightarrow> (Inr updatedBox, s2))"

definition db_deleteBox :: "nat \<Rightarrow> Date \<Rightarrow> DatabaseStorage \<Rightarrow> (db_error + bool) \<times> DatabaseStorage" where
  "db_deleteBox bid t s =
     (case db_getBox bid s of
        None \<Rightarrow> (Inr False, s)
      | Some box \<Rightarrow>
          let s1 = delete_boxes bid s
          in case db_createActivity
                    \<lparr> ia_boxId = Some bid, ia_type = ''deleted'',
                      ia_description = ''Box #'' @ show_int (b_boxNumber box) @ '' deleted'' \<rparr> t s1 of
               (Inl e, s2) \<Rightarrow> (Inl e, s2)
             | (Inr _, s2) \<Rightarrow> (Inr True, s2))"


definition db_getBoxActivities :: "nat \<Rightarrow> DatabaseStorage \<Rightarrow> Activity list" where
  "db_getBoxActivities boxId s =
     order_by_desc a_timestamp (filter (\<lambda>a. a_boxId a = Some boxId) (activities_table s))"

definition db_getQrCode :: "nat \<Rightarrow> DatabaseStorage \<Rightarrow> QrCode option" where
  "db_getQrCode qid s = first_row (filter (\<lambda>q. q_id q = qid) (qr_codes_table s))"

definition db_getQrCodeByBoxId :: "nat \<Rightarrow> DatabaseStorage \<Rightarrow> QrCode option" where
  "db_getQrCodeByBoxId boxId s = first_row (filter (\<lambda>q. q_boxId q = boxId) (qr_codes_table s))"

definition db_createQrCode ::
    "InsertQrCode \<Rightarrow> Date \<Rightarrow> DatabaseStorage \<Rightarrow> (db_error + QrCode) \<times> DatabaseStorage" where
  "db_createQrCode qrCodeData now s =
     insert_qr_code
       (\<lambda>qid. \<lparr> q_id = qid, q_boxId = iq_boxId qrCodeData, q_data = iq_data qrCodeData,
                q_createdAt = now \<rparr>) s"

definition db_getOwners :: "DatabaseStorage \<Rightarrow> Owner list" where
  "db_getOwners s = order_by_desc o_updatedAt (owners_table s)"

definition db_getOwner :: "nat \<Rightarrow> DatabaseStorage \<Rightarrow> Owner option" where
  "db_getOwner oid s = first_row (filter (\<lambda>ow. o_id ow = oid) (owners_table s))"

definition db_createOwner ::
    "InsertOwner \<Rightarrow> Date \<Rightarrow> DatabaseStorage \<Rightarrow> (db_error + Owner) \<times> DatabaseStorage" where
  "db_createOwner ownerData now s =
     insert_owner
       (\<lambda>oid. \<lparr> o_id = oid, o_name = io_name ownerData, o_color = io_color ownerData,
                o_createdAt = now, o_updatedAt = now \<rparr>) s"

definition db_updateOwner ::
    "nat \<Rightarrow> PartialInsertOwner \<Rightarrow> Date \<Rightarrow> DatabaseStorage \<Rightarrow> Owner option \<times> DatabaseStorage" where
  "db_updateOwner oid ownerData now s =
     (case db_getOwner oid s of
        None \<Rightarrow> (None, s)
      | Some owner \<Rightarrow>
          let (rows, s1) = update_owners (\<lambda>ow. (ownerData_spread ownerData ow)\<lparr> o_updatedAt := now \<rparr>) oid s
          in (first_row rows, s1))"

definition db_deleteOwner :: "nat \<Rightarrow> DatabaseStorage \<Rightarrow> bool \<times> DatabaseStorage" where
  "db_deleteOwner oid s =
     (case db_getOwner oid s of
        None \<Rightarrow> (False, s)
      | Some owner \<Rightarrow>
          let boxesWithOwner = filter (\<lambda>b. b_owner b = o_name owner) (boxes_table s)
          in if length boxesWithOwner > 0 then (False, s)
             else (True, delete_owners oid s))"

section \<open>Invariants of the two stores\<close>

text \<open>
  Ids come from counters that only grow: every key in use is below its counter
  (in-memory), every primary key below the next value of its sequence (database).
\<close>

definition MemStorage_inv :: "MemStorage \<Rightarrow> bool" where
  "MemStorage_inv s \<longleftrightarrow>
     list_all (\<lambda>k. k < boxCounter s) (map fst (boxes s)) \<and>
     list_all (\<lambda>k. k < activityCounter s) (map fst (activities s)) \<and>
     list_all (\<lambda>k. k < qrCodeCounter s) (map fst (qrCodes s)) \<and>
     list_all (\<lambda>k. k < ownerCounter s) (map fst (owners s))"

definition DatabaseStorage_inv :: "DatabaseStorage \<Rightarrow> bool" where
  "DatabaseStorage_inv s \<longleftrightarrow>
     list_all (\<lambda>b. b_id b < boxes_id_seq s) (boxes_table s) \<and>
     list_all (\<lambda>a. a_id a < activities_id_seq s) (activities_table s) \<and>
     list_all (\<lambda>q. q_id q < qr_codes_id_seq s) (qr_codes_table s) \<and>
     list_all (\<lambda>ow. o_id ow < owners_id_seq s) (owners_table s)"

section \<open>Example stores\<close>

text \<open>
  The scenario of the specification: box 1 of Alex with the mugs is created (clock
  readings 1 and 2), then loaded at front-left-high (3 and 4). Further stores: the box
  updated within the millisecond of its creation activity, so that two activities share
  a timestamp; the owner "Alex" next to a box of "alex"; a second box created later.
\<close>

definition kitchen_box :: InsertBox where
  "kitchen_box = \<lparr> ib_boxNumber = 1, ib_owner = ''Alex'', ib_room = ''Kitchen'', ib_contents = ''Mugs'',
                   ib_status = Some ''packed'' \<rparr>"

definition front_left_high :: BoxPosition where
  "front_left_high = \<lparr> depth = Front, horizontal = Left, vertical = High \<rparr>"

definition mem_created :: MemStorage where
  "mem_created = snd (createBox kitchen_box 1 2 MemStorage_new)"

definition mem_loaded :: MemStorage where
  "mem_loaded = snd (updateBoxPosition 1 front_left_high (Some Loaded) 3 4 mem_created)"

definition db_created :: DatabaseStorage where
  "db_created = snd (db_createBox kitchen_box 1 2 DatabaseStorage_new)"

definition db_loaded :: DatabaseStorage where
  "db_loaded = snd (db_updateBoxPosition 1 front_left_high (Some Loaded) 3 4 db_created)"

definition created_box :: Box where
  "created_box = \<lparr> b_id = 1, b_boxNumber = 1, b_owner = ''Alex'', b_room = ''Kitchen'', b_contents = ''Mugs'',
                   b_status = ''packed'', b_position = None, b_createdAt = 1, b_updatedAt = 1 \<rparr>"

definition loaded_box :: Box where
  "loaded_box = \<lparr> b_id = 1, b_boxNumber = 1, b_owner = ''Alex'', b_room = ''Kitchen'', b_contents = ''Mugs'',
                  b_status = ''loaded'', b_position = Some front_left_high, b_createdAt = 1, b_updatedAt = 3 \<rparr>"




definition alex :: InsertOwner where
  "alex = \<lparr> io_name = ''Alex'', io_color = ''#3b82f6'' \<rparr>"

definition alex_owner :: Owner where
  "alex_owner = \<lparr> o_id = 1, o_name = ''Alex'', o_color = ''#3b82f6'', o_createdAt = 0, o_updatedAt = 0 \<rparr>"

definition mem_alex :: MemStorage where
  "mem_alex = snd (createBox (kitchen_box\<lparr> ib_owner := ''alex'' \<rparr>) 1 2 (snd (createOwner alex 0 MemStorage_new)))"

definition db_alex :: DatabaseStorage where
  "db_alex = snd (db_createBox (kitchen_box\<lparr> ib_owner := ''alex'' \<rparr>) 1 2
                   (snd (db_createOwner alex 0 DatabaseStorage_new)))"

definition mem_two_boxes :: MemStorage where
  "mem_two_boxes = snd (createBox (kitchen_box\<lparr> ib_boxNumber := 2 \<rparr>) 3 4 mem_created)"

definition db_two_boxes :: DatabaseStorage where
  "db_two_boxes = snd (db_createBox (kitchen_box\<lparr> ib_boxNumber := 2 \<rparr>) 3 4 db_created)"

definition bogus :: PartialInsertBox where
  "bogus = \<lparr> pb_boxNumber = None, pb_owner = None, pb_room = None, pb_contents = None,
              pb_status = Some ''bogus'' \<rparr>"

section \<open>The invariants are kept\<close>

lemma update_fresh: "k \<notin> fst ` set al \<Longrightarrow> AList.update k v al = al @ [(k, v)]"
  by (induction al) auto

lemma keys_below_fresh: "list_all (\<lambda>k. k < (n::nat)) (map fst al) \<Longrightarrow> n \<notin> fst ` set al"
  by (induction al) auto

lemma keys_below_mono:
  "list_all (\<lambda>k. k < (n::nat)) (map fst al) \<Longrightarrow> n \<le> m \<Longrightarrow> list_all (\<lambda>k. k < m) (map fst al)"
  by (induction al) auto

lemma keys_below_update:
  "list_all (\<lambda>k. k < (n::nat)) (map fst al) \<Longrightarrow> k' < n \<Longrightarrow>
   list_all (\<lambda>k. k < n) (map fst (AList.update k' v al))"
  by (induction al) auto

lemma keys_below_update_fresh:
  "list_all (\<lambda>k. k < (n::nat)) (map fst al) \<Longrightarrow>
   list_all (\<lambda>k. k < Suc n) (map fst (AList.update n v al))"
  by (rule keys_below_update) (auto intro: keys_below_mono)

lemma keys_below_map_of:
  "list_all (\<lambda>k. k < (n::nat)) (map fst al) \<Longrightarrow> map_of al k = Some v \<Longrightarrow> k < n"
  by (induction al) (auto split: if_splits)

lemma keys_below_delete:
  "list_all (\<lambda>k. k < n) (map fst al) \<Longrightarrow> list_all (\<lambda>k. k < n) (map fst (AList.delete k' al))"
  by (induction al) auto

lemma createActivity_appends:
  "MemStorage_inv s \<Longrightarrow>
   activities (snd (createActivity activityData t s)) =
     activities s @ [(activityCounter s,
        \<lparr> a_id = activityCounter s, a_boxId = ia_boxId activityData, a_type = ia_type activityData,
          a_description = ia_description activityData, a_timestamp = t \<rparr>)]"
  by (simp add: createActivity_def MemStorage_inv_def Let_def update_fresh keys_below_fresh)

lemma createActivity_others [simp]:
  "boxes (snd (createActivity activityData t s)) = boxes s"
  "qrCodes (snd (createActivity activityData t s)) = qrCodes s"
  "owners (snd (createActivity activityData t s)) = owners s"
  "boxCounter (snd (createActivity activityData t s)) = boxCounter s"
  "qrCodeCounter (snd (createActivity activityData t s)) = qrCodeCounter s"
  "ownerCounter (snd (createActivity activityData t s)) = ownerCounter s"
  "activityCounter (snd (createActivity activityData t s)) = Suc (activityCounter s)"
  by (simp_all add: createActivity_def Let_def)

lemma inv_createActivity: "MemStorage_inv s \<Longrightarrow> MemStorage_inv (snd (createActivity activityData t s))"
  by (simp add: MemStorage_inv_def createActivity_def Let_def keys_below_update_fresh)


lemma inv_boxes_update:
  "MemStorage_inv s \<Longrightarrow> map_of (boxes s) k = Some b \<Longrightarrow> MemStorage_inv (s\<lparr> boxes := AList.update k v (boxes s) \<rparr>)"
  by (auto simp: MemStorage_inv_def intro: keys_below_update keys_below_map_of)

lemma inv_boxes_fresh:
  "MemStorage_inv s \<Longrightarrow> MemStorage_inv (s\<lparr> boxCounter := Suc (boxCounter s), boxes := AList.update (boxCounter s) v (boxes s) \<rparr>)"
  by (simp add: MemStorage_inv_def keys_below_update_fresh)

lemma inv_createBox: "MemStorage_inv s \<Longrightarrow> MemStorage_inv (snd (createBox boxData now t s))"
  by (simp add: createBox_def Let_def split_beta inv_createActivity inv_boxes_fresh)

lemma inv_updateBox: "MemStorage_inv s \<Longrightarrow> MemStorage_inv (snd (updateBox bid boxData now t s))"
  by (simp add: updateBox_def Let_def split_beta inv_createActivity inv_boxes_update split: option.splits)

lemma inv_updateBoxPosition: "MemStorage_inv s \<Longrightarrow> MemStorage_inv (snd (updateBoxPosition bid position status now t s))"
  by (simp add: updateBoxPosition_def Let_def split_beta inv_createActivity inv_boxes_update split: option.splits)

lemma inv_updateBoxStatus: "MemStorage_inv s \<Longrightarrow> MemStorage_inv (snd (updateBoxStatus bid status now t s))"
  by (simp add: updateBoxStatus_def Let_def split_beta inv_createActivity inv_boxes_update split: option.splits)

lemma fold_delete_keys_below:
  "list_all (\<lambda>k. k < (n::nat)) (map fst m) \<Longrightarrow>
   list_all (\<lambda>k. k < n) (map fst (fold (\<lambda>(qrId, qrCode) m. if P qrCode then AList.delete qrId m else m) qs m))"
  by (induction qs arbitrary: m) (auto simp: keys_below_delete split: prod.splits)

lemma inv_deleteBox: "MemStorage_inv s \<Longrightarrow> MemStorage_inv (snd (deleteBox bid t s))"
proof (cases "map_of (boxes s) bid")
  case None
  then show "MemStorage_inv s \<Longrightarrow> MemStorage_inv (snd (deleteBox bid t s))" by (simp add: deleteBox_def)
next
  case (Some box)
  assume "MemStorage_inv s"
  then have "MemStorage_inv (s\<lparr> boxes := AList.delete bid (boxes s), qrCodes := deleteQrCodesOf bid (qrCodes s) \<rparr>)"
    by (simp add: MemStorage_inv_def keys_below_delete deleteQrCodesOf_def fold_delete_keys_below)
  then show "MemStorage_inv (snd (deleteBox bid t s))"
    using Some by (simp add: deleteBox_def Let_def split_beta inv_createActivity)
qed

lemma inv_createQrCode: "MemStorage_inv s \<Longrightarrow> MemStorage_inv (snd (createQrCode qrCodeData now s))"
  by (simp add: createQrCode_def Let_def MemStorage_inv_def keys_below_update_fresh)

lemma inv_createOwner: "MemStorage_inv s \<Longrightarrow> MemStorage_inv (snd (createOwner ownerData now s))"
  by (simp add: createOwner_def Let_def MemStorage_inv_def keys_below_update_fresh)

lemma inv_updateOwner: "MemStorage_inv s \<Longrightarrow> MemStorage_inv (snd (updateOwner oid ownerData now s))"
  by (auto simp: updateOwner_def Let_def MemStorage_inv_def split: option.splits
      intro: keys_below_update keys_below_map_of)

lemma inv_deleteOwner: "MemStorage_inv s \<Longrightarrow> MemStorage_inv (snd (deleteOwner oid s))"
  by (simp add: deleteOwner_def Let_def MemStorage_inv_def keys_below_delete split: option.splits)

section \<open>Facts about the database statements\<close>

lemma first_row_filter_SomeD: "first_row (filter P xs) = Some x \<Longrightarrow> x \<in> set xs \<and> P x"
  by (induction xs) (auto simp: first_row_def split: if_splits)

lemma db_getBox_SomeD: "db_getBox bid s = Some box \<Longrightarrow> box \<in> set (boxes_table s) \<and> b_id box = bid"
  unfolding db_getBox_def by (drule first_row_filter_SomeD) simp

lemma first_row_update:
  "(\<And>b. b_id (f b) = b_id b) \<Longrightarrow>
   first_row (filter (\<lambda>b. b_id b = bid) (map (\<lambda>b. if b_id b = bid then f b else b) xs)) =
     map_option f (first_row (filter (\<lambda>b. b_id b = bid) xs))"
  by (induction xs) (auto simp: first_row_def)

lemma ids_update:
  "(\<And>b. b_id (f b) = b_id b) \<Longrightarrow> map b_id (map (\<lambda>b. if b_id b = bid then f b else b) xs) = map b_id xs"
  by (induction xs) auto

lemma ids_update_set:
  "(\<And>b. b_id (f b) = b_id b) \<Longrightarrow> b_id ` set (map (\<lambda>b. if b_id b = bid then f b else b) xs) = b_id ` set xs"
  by (induction xs) auto

lemma ids_update_below:
  "(\<And>b. b_id (f b) = b_id b) \<Longrightarrow>
   list_all (\<lambda>b. b_id b < n) (map (\<lambda>b. if b_id b = bid then f b else b) xs) = list_all (\<lambda>b. b_id b < n) xs"
  by (induction xs) auto

lemma update_boxes_returning:
  "(\<And>b. b_id (f b) = b_id b) \<Longrightarrow> first_row (fst (update_boxes f bid s)) = map_option f (db_getBox bid s)"
  by (simp add: update_boxes_def Let_def db_getBox_def first_row_update)

lemma update_boxes_getBox:
  "(\<And>b. b_id (f b) = b_id b) \<Longrightarrow> db_getBox bid (snd (update_boxes f bid s)) = map_option f (db_getBox bid s)"
  by (simp add: update_boxes_def Let_def db_getBox_def first_row_update)

lemma update_boxes_ids:
  "(\<And>b. b_id (f b) = b_id b) \<Longrightarrow> b_id ` set (boxes_table (snd (update_boxes f bid s))) = b_id ` set (boxes_table s)"
proof -
  assume f: "\<And>b. b_id (f b) = b_id b"
  have "boxes_table (snd (update_boxes f bid s)) = map (\<lambda>b. if b_id b = bid then f b else b) (boxes_table s)"
    by (simp add: update_boxes_def Let_def)
  then show ?thesis by (simp only: ids_update_set[OF f])
qed

lemma update_boxes_others [simp]:
  "activities_table (snd (update_boxes f bid s)) = activities_table s"
  "qr_codes_table (snd (update_boxes f bid s)) = qr_codes_table s"
  "owners_table (snd (update_boxes f bid s)) = owners_table s"
  "boxes_id_seq (snd (update_boxes f bid s)) = boxes_id_seq s"
  "activities_id_seq (snd (update_boxes f bid s)) = activities_id_seq s"
  "qr_codes_id_seq (snd (update_boxes f bid s)) = qr_codes_id_seq s"
  "owners_id_seq (snd (update_boxes f bid s)) = owners_id_seq s"
  by (simp_all add: update_boxes_def Let_def)

lemma inv_update_boxes:
  "(\<And>b. b_id (f b) = b_id b) \<Longrightarrow> DatabaseStorage_inv s \<Longrightarrow> DatabaseStorage_inv (snd (update_boxes f bid s))"
  by (simp add: DatabaseStorage_inv_def update_boxes_def Let_def ids_update_below)

lemma ids_below_fresh: "list_all (\<lambda>r. key r < (n::nat)) rows \<Longrightarrow> n \<notin> key ` set rows"
  by (induction rows) auto

lemma db_createActivity_ok:
  "DatabaseStorage_inv s \<Longrightarrow> ia_boxId activityData = Some bid \<Longrightarrow> bid \<in> b_id ` set (boxes_table s) \<Longrightarrow>
   db_createActivity activityData t s =
     (Inr \<lparr> a_id = activities_id_seq s, a_boxId = Some bid, a_type = ia_type activityData,
            a_description = ia_description activityData, a_timestamp = t \<rparr>,
      s\<lparr> activities_id_seq := Suc (activities_id_seq s),
         activities_table := activities_table s @
           [\<lparr> a_id = activities_id_seq s, a_boxId = Some bid, a_type = ia_type activityData,
              a_description = ia_description activityData, a_timestamp = t \<rparr>] \<rparr>)"
  by (simp add: db_createActivity_def insert_activity_def Let_def DatabaseStorage_inv_def ids_below_fresh)

lemma ids_below_mono: "list_all (\<lambda>r. key r < (n::nat)) rows \<Longrightarrow> n \<le> m \<Longrightarrow> list_all (\<lambda>r. key r < m) rows"
  by (induction rows) auto

lemma inv_insert_activity:
  "(\<And>k. a_id (row k) = k) \<Longrightarrow> DatabaseStorage_inv s \<Longrightarrow> DatabaseStorage_inv (snd (insert_activity row s))"
  by (auto simp: insert_activity_def Let_def DatabaseStorage_inv_def split: option.splits
      intro: ids_below_mono)

lemma inv_db_createActivity:
  "DatabaseStorage_inv s \<Longrightarrow> DatabaseStorage_inv (snd (db_createActivity activityData t s))"
  by (simp add: db_createActivity_def inv_insert_activity)

lemma inv_insert_box:
  "(\<And>k. b_id (row k) = k) \<Longrightarrow> DatabaseStorage_inv s \<Longrightarrow> DatabaseStorage_inv (snd (insert_box row s))"
  by (auto simp: insert_box_def Let_def DatabaseStorage_inv_def intro: ids_below_mono)

lemma inv_db_createBox:
  "DatabaseStorage_inv s \<Longrightarrow> DatabaseStorage_inv (snd (db_createBox boxData now t s))"
proof -
  assume s: "DatabaseStorage_inv s"
  let ?r = "insert_box (\<lambda>bid. \<lparr> b_id = bid, b_boxNumber = ib_boxNumber boxData, b_owner = ib_owner boxData,
                      b_room = ib_room boxData, b_contents = ib_contents boxData,
                      b_status = boxStatus_of (ib_status boxData), b_position = None,
                      b_createdAt = now, b_updatedAt = now \<rparr>) s"
  have "DatabaseStorage_inv (snd ?r)" using s by (simp add: inv_insert_box)
  then show ?thesis
    by (cases ?r; auto simp: db_createBox_def split: sum.splits prod.splits)
       (metis inv_db_createActivity snd_conv)+
qed



lemma db_update_pattern:
  assumes inv: "DatabaseStorage_inv s" and box: "db_getBox bid s = Some box"
    and f: "\<And>b. b_id (f b) = b_id b" and d: "ia_boxId activityData = Some bid"
  shows "(let (rows, s1) = update_boxes f bid s; updatedBox = first_row rows
          in case db_createActivity activityData t s1 of
               (Inl e, s2) \<Rightarrow> (Inl e, s2)
             | (Inr _, s2) \<Rightarrow> (Inr updatedBox, s2)) =
         (Inr (Some (f box)),
          (snd (update_boxes f bid s))
            \<lparr> activities_id_seq := Suc (activities_id_seq s),
              activities_table := activities_table s @
                [\<lparr> a_id = activities_id_seq s, a_boxId = Some bid, a_type = ia_type activityData,
                   a_description = ia_description activityData, a_timestamp = t \<rparr>] \<rparr>)"
proof -
  let ?s1 = "snd (update_boxes f bid s)"
  have "bid \<in> b_id ` set (boxes_table ?s1)"
    using db_getBox_SomeD[OF box] by (auto simp: update_boxes_ids[OF f])
  then have "db_createActivity activityData t ?s1 =
     (Inr \<lparr> a_id = activities_id_seq s, a_boxId = Some bid, a_type = ia_type activityData,
            a_description = ia_description activityData, a_timestamp = t \<rparr>,
      ?s1\<lparr> activities_id_seq := Suc (activities_id_seq s),
           activities_table := activities_table s @
             [\<lparr> a_id = activities_id_seq s, a_boxId = Some bid, a_type = ia_type activityData,
                a_description = ia_description activityData, a_timestamp = t \<rparr>] \<rparr>)"
    using db_createActivity_ok[OF inv_update_boxes[OF f inv] d, of bid t] by simp
  then show ?thesis
    by (simp add: split_beta Let_def update_boxes_returning[OF f] box)
qed

lemma db_updateBoxStatus_ok:
  assumes "DatabaseStorage_inv s" and "db_getBox bid s = Some box"
  shows "db_updateBoxStatus bid status now t s =
    (Inr (Some (box\<lparr> b_status := status,
                      b_position := (if b_status box = Loaded \<and> status \<noteq> Loaded then None else b_position box),
                      b_updatedAt := now \<rparr>)),
     (snd (update_boxes (\<lambda>b. b\<lparr> b_status := status,
                      b_position := (if b_status box = Loaded \<and> status \<noteq> Loaded then None else b_position box),
                      b_updatedAt := now \<rparr>) bid s))
       \<lparr> activities_id_seq := Suc (activities_id_seq s),
         activities_table := activities_table s @
           [\<lparr> a_id = activities_id_seq s, a_boxId = Some bid, a_type = toLowerCase status,
              a_description = ''Box #'' @ show_int (b_boxNumber box) @ '' marked as '' @ status,
              a_timestamp = t \<rparr>] \<rparr>)"
  unfolding db_updateBoxStatus_def
  using db_update_pattern[OF assms, where f = "\<lambda>b. b\<lparr> b_status := status,
                      b_position := (if b_status box = Loaded \<and> status \<noteq> Loaded then None else b_position box),
                      b_updatedAt := now \<rparr>" and activityData = "\<lparr> ia_boxId = Some bid, ia_type = toLowerCase status,
                      ia_description = ''Box #'' @ show_int (b_boxNumber box) @ '' marked as '' @ status \<rparr>" and t = t]
  by (simp add: assms Let_def)

text \<open>Every operation of the database class keeps the invariant, also when it fails.\<close>

lemma snd_outcome:
  "snd (case r of (Inl e, s2) \<Rightarrow> (Inl e, s2) | (Inr x, s2) \<Rightarrow> (Inr (g x), s2)) = snd r"
  by (cases r) (auto split: sum.splits)

lemma snd_outcome':
  "snd (case fst r of Inl e \<Rightarrow> (Inl e, snd r) | Inr x \<Rightarrow> (Inr (g x), snd r)) = snd r"
  by (cases "fst r") auto

lemma inv_db_updateBox:
  "DatabaseStorage_inv s \<Longrightarrow> DatabaseStorage_inv (snd (db_updateBox bid boxData now t s))"
  by (cases "db_getBox bid s")
     (simp_all add: db_updateBox_def Let_def split_beta snd_outcome' inv_db_createActivity
        inv_update_boxes typeSafeData_def)

lemma inv_db_updateBoxPosition:
  "DatabaseStorage_inv s \<Longrightarrow> DatabaseStorage_inv (snd (db_updateBoxPosition bid position status now t s))"
  by (cases "db_getBox bid s")
     (simp_all add: db_updateBoxPosition_def Let_def split_beta snd_outcome' inv_db_createActivity
        inv_update_boxes)

lemma inv_db_updateBoxStatus:
  "DatabaseStorage_inv s \<Longrightarrow> DatabaseStorage_inv (snd (db_updateBoxStatus bid status now t s))"
  by (cases "db_getBox bid s")
     (simp_all add: db_updateBoxStatus_def Let_def split_beta snd_outcome' inv_db_createActivity
        inv_update_boxes)

lemma ids_below_filter: "list_all (\<lambda>r. key r < (n::nat)) rows \<Longrightarrow> list_all (\<lambda>r. key r < n) (filter P rows)"
  by (induction rows) auto

lemma inv_delete_boxes: "DatabaseStorage_inv s \<Longrightarrow> DatabaseStorage_inv (delete_boxes bid s)"
  by (simp add: DatabaseStorage_inv_def delete_boxes_def ids_below_filter)

lemma inv_db_deleteBox:
  "DatabaseStorage_inv s \<Longrightarrow> DatabaseStorage_inv (snd (db_deleteBox bid t s))"
  by (cases "db_getBox bid s")
     (simp_all add: db_deleteBox_def Let_def snd_outcome inv_db_createActivity inv_delete_boxes)

lemma inv_db_createQrCode:
  "DatabaseStorage_inv s \<Longrightarrow> DatabaseStorage_inv (snd (db_createQrCode qrCodeData now s))"
  by (auto simp: db_createQrCode_def insert_qr_code_def Let_def DatabaseStorage_inv_def
      intro: ids_below_mono)

lemma inv_db_createOwner:
  "DatabaseStorage_inv s \<Longrightarrow> DatabaseStorage_inv (snd (db_createOwner ownerData now s))"
  by (auto simp: db_createOwner_def insert_owner_def Let_def DatabaseStorage_inv_def
      intro: ids_below_mono)

lemma owner_ids_update_below:
  "(\<And>ow. o_id (f ow) = o_id ow) \<Longrightarrow>
   list_all (\<lambda>ow. o_id ow < n) (map (\<lambda>ow. if o_id ow = oid then f ow else ow) xs) =
     list_all (\<lambda>ow. o_id ow < n) xs"
  by (induction xs) auto

lemma inv_db_updateOwner:
  "DatabaseStorage_inv s \<Longrightarrow> DatabaseStorage_inv (snd (db_updateOwner oid ownerData now s))"
  by (cases "db_getOwner oid s")
     (simp_all add: db_updateOwner_def update_owners_def Let_def DatabaseStorage_inv_def
        owner_ids_update_below ownerData_spread_def)

lemma inv_db_deleteOwner:
  "DatabaseStorage_inv s \<Longrightarrow> DatabaseStorage_inv (snd (db_deleteOwner oid s))"
  by (cases "db_getOwner oid s")
     (simp_all add: db_deleteOwner_def delete_owners_def Let_def DatabaseStorage_inv_def ids_below_filter)

section \<open>C10: updating an absent box\<close>



section \<open>C1: status changes and the position\<close>

text \<open>
  C1. For a box that is in the store, updateBoxStatus returns the updated box and stores
  it under the same id. If the box was "loaded" and the new status is not "loaded", the
  position of the result is null (\<open>None\<close>), whatever it was; if the box was not "loaded",
  the position of the result is the position it had, so a null position stays null.
  The same holds for the database implementation, where the operation also succeeds.
\<close>

theorem updateBoxStatus_position:
  "(getBox bid s = Some box \<longrightarrow>
      (\<exists>box'. fst (updateBoxStatus bid status now t s) = Some box' \<and>
              getBox bid (snd (updateBoxStatus bid status now t s)) = Some box' \<and>
              (b_status box = Loaded \<and> status \<noteq> Loaded \<longrightarrow> b_position box' = None) \<and>
              (b_status box \<noteq> Loaded \<longrightarrow> b_position box' = b_position box))) \<and>
   (DatabaseStorage_inv d \<and> db_getBox bid d = Some dbox \<longrightarrow>
      (\<exists>box' d'. db_updateBoxStatus bid status now t d = (Inr (Some box'), d') \<and>
              db_getBox bid d' = Some box' \<and>
              (b_status dbox = Loaded \<and> status \<noteq> Loaded \<longrightarrow> b_position box' = None) \<and>
              (b_status dbox \<noteq> Loaded \<longrightarrow> b_position box' = b_position dbox)))"
proof (intro conjI impI)
  assume "getBox bid s = Some box"
  then show "\<exists>box'. fst (updateBoxStatus bid status now t s) = Some box' \<and>
              getBox bid (snd (updateBoxStatus bid status now t s)) = Some box' \<and>
              (b_status box = Loaded \<and> status \<noteq> Loaded \<longrightarrow> b_position box' = None) \<and>
              (b_status box \<noteq> Loaded \<longrightarrow> b_position box' = b_position box)"
    by (simp add: getBox_def updateBoxStatus_def Let_def split_beta update_conv')
next
  assume a: "DatabaseStorage_inv d \<and> db_getBox bid d = Some dbox"
  let ?f = "\<lambda>b. b\<lparr> b_status := status,
                   b_position := (if b_status dbox = Loaded \<and> status \<noteq> Loaded then None else b_position dbox),
                   b_updatedAt := now \<rparr>"
  have "db_getBox bid (snd (update_boxes ?f bid d)) = Some (?f dbox)"
    using a by (simp add: update_boxes_getBox)
  then show "\<exists>box' d'. db_updateBoxStatus bid status now t d = (Inr (Some box'), d') \<and>
              db_getBox bid d' = Some box' \<and>
              (b_status dbox = Loaded \<and> status \<noteq> Loaded \<longrightarrow> b_position box' = None) \<and>
              (b_status dbox \<noteq> Loaded \<longrightarrow> b_position box' = b_position dbox)"
    using a by (simp add: db_updateBoxStatus_ok db_getBox_def)
qed

theorem updateBoxStatus_position_witness:
  "getBox 1 mem_created = Some created_box \<and> b_status created_box \<noteq> Loaded \<and>
   (\<exists>box'. fst (updateBoxStatus 1 Staging 5 6 mem_created) = Some box' \<and>
           b_position box' = b_position created_box) \<and>
   getBox 1 mem_loaded = Some loaded_box \<and> b_status loaded_box = Loaded \<and> Out \<noteq> Loaded \<and>
   b_position loaded_box = Some front_left_high \<and>
   (\<exists>box'. fst (updateBoxStatus 1 Out 5 6 mem_loaded) = Some box' \<and>
           getBox 1 (snd (updateBoxStatus 1 Out 5 6 mem_loaded)) = Some box' \<and> b_position box' = None) \<and>
   DatabaseStorage_inv db_loaded \<and> db_getBox 1 db_loaded = Some loaded_box \<and>
   (\<exists>box' d'. db_updateBoxStatus 1 Out 5 6 db_loaded = (Inr (Some box'), d') \<and>
           db_getBox 1 d' = Some box' \<and> b_position box' = None)"
proof -
  have m: "getBox 1 mem_loaded = Some loaded_box" by code_simp
  have d: "DatabaseStorage_inv db_loaded \<and> db_getBox 1 db_loaded = Some loaded_box" by code_simp
  have l: "b_status loaded_box = Loaded \<and> Out \<noteq> Loaded \<and> b_position loaded_box = Some front_left_high"
    by code_simp
  have c: "getBox 1 mem_created = Some created_box \<and> b_status created_box \<noteq> Loaded" by code_simp
  show ?thesis
    using m d l c updateBoxStatus_position[of 1 mem_loaded loaded_box Out 5 6 db_loaded loaded_box]
      updateBoxStatus_position[of 1 mem_created created_box Staging 5 6 db_loaded loaded_box]
    by blast
qed

section \<open>Facts about createBox\<close>






section \<open>C4: createBox\<close>




section \<open>Facts about updateBoxPosition\<close>

lemma position_activity_boxId [simp]: "ia_boxId (position_activity bid box position status) = Some bid"
  by (simp add: position_activity_def)

lemma position_activity_type:
  "ia_type (position_activity bid box position status) = (if status = Some ''loaded'' then ''loaded'' else ''moved'')"
  by (simp add: position_activity_def Loaded_def)

lemma position_activity_description:
  "\<exists>pre post. ia_description (position_activity bid box position status) =
     pre @ depth_str (depth position) @ ''-'' @ horizontal_str (horizontal position) @ ''-'' @
       vertical_str (vertical position) @ post"
proof (cases "status = Some Loaded")
  case True
  then have "ia_description (position_activity bid box position status) =
     (''Box #'' @ show_int (b_boxNumber box) @ '' loaded onto truck ('') @
       depth_str (depth position) @ ''-'' @ horizontal_str (horizontal position) @ ''-'' @
       vertical_str (vertical position) @ '')''"
    by (simp add: position_activity_def position_str_def)
  then show ?thesis by blast
next
  case False
  then have "ia_description (position_activity bid box position status) =
     (''Box #'' @ show_int (b_boxNumber box) @ '' moved to position '') @
       depth_str (depth position) @ ''-'' @ horizontal_str (horizontal position) @ ''-'' @
       vertical_str (vertical position) @ []"
    by (simp add: position_activity_def position_str_def)
  then show ?thesis by blast
qed

lemma updateBoxPosition_result:
  "map_of (boxes s) bid = Some box \<Longrightarrow>
   updateBoxPosition bid position status now t s =
     (Some (box\<lparr> b_position := Some position,
                 b_status := (if truthy status then the status else b_status box),
                 b_updatedAt := now \<rparr>),
      snd (createActivity (position_activity bid box position status) t
            (s\<lparr> boxes := AList.update bid
                   (box\<lparr> b_position := Some position,
                         b_status := (if truthy status then the status else b_status box),
                         b_updatedAt := now \<rparr>) (boxes s) \<rparr>)))"
  by (simp add: updateBoxPosition_def Let_def split_beta)

lemma db_updateBoxPosition_ok:
  assumes "DatabaseStorage_inv s" and "db_getBox bid s = Some box"
  shows "db_updateBoxPosition bid position status now t s =
    (Inr (Some (box\<lparr> b_position := Some position,
                      b_status := (if truthy status then the status else b_status box),
                      b_updatedAt := now \<rparr>)),
     (snd (update_boxes (\<lambda>b. b\<lparr> b_position := Some position,
                      b_status := (if truthy status then the status else b_status b),
                      b_updatedAt := now \<rparr>) bid s))
       \<lparr> activities_id_seq := Suc (activities_id_seq s),
         activities_table := activities_table s @
           [\<lparr> a_id = activities_id_seq s, a_boxId = Some bid,
              a_type = ia_type (position_activity bid box position status),
              a_description = ia_description (position_activity bid box position status),
              a_timestamp = t \<rparr>] \<rparr>)"
  unfolding db_updateBoxPosition_def
  using db_update_pattern[OF assms, where f = "\<lambda>b. b\<lparr> b_position := Some position,
                      b_status := (if truthy status then the status else b_status b),
                      b_updatedAt := now \<rparr>"
                      and activityData = "position_activity bid box position status" and t = t]
  by (simp add: assms Let_def)

section \<open>C9: updateBoxPosition\<close>

text \<open>
  C9. For a box that is in the store, updateBoxPosition returns the updated box and stores
  it under the same id. The position of the result is the given one, whatever the status.
  A status argument that is supplied is the status of the result, unchecked (the six
  values of BoxStatus are non-empty strings, and the source tests the argument for
  truthiness); without one the status stays. updatedAt is the clock reading. Exactly one
  activity is appended; it refers to the box, its type is "loaded" when the status
  argument is "loaded" and "moved" otherwise, also without a status argument, and its
  description contains depth-horizontal-vertical of the position. In-memory store and
  database alike.
\<close>

theorem updateBoxPosition_sets_position:
  "(MemStorage_inv s \<and> getBox bid s = Some box \<longrightarrow>
      (\<exists>box' s' a. updateBoxPosition bid position status now t s = (Some box', s') \<and>
         getBox bid s' = Some box' \<and> b_position box' = Some position \<and>
         (\<forall>v. status = Some v \<and> v \<noteq> [] \<longrightarrow> b_status box' = v) \<and>
         (status = None \<longrightarrow> b_status box' = b_status box) \<and>
         b_updatedAt box' = now \<and>
         activities s' = activities s @ [(a_id a, a)] \<and> a_boxId a = Some bid \<and>
         (status = Some ''loaded'' \<longrightarrow> a_type a = ''loaded'') \<and>
         (status \<noteq> Some ''loaded'' \<longrightarrow> a_type a = ''moved'') \<and>
         (\<exists>pre post. a_description a = pre @ depth_str (depth position) @ ''-'' @ horizontal_str (horizontal position) @ ''-'' @ vertical_str (vertical position) @ post))) \<and>
   (DatabaseStorage_inv d \<and> db_getBox bid d = Some dbox \<longrightarrow>
      (\<exists>box' d' a. db_updateBoxPosition bid position status now t d = (Inr (Some box'), d') \<and>
         db_getBox bid d' = Some box' \<and> b_position box' = Some position \<and>
         (\<forall>v. status = Some v \<and> v \<noteq> [] \<longrightarrow> b_status box' = v) \<and>
         (status = None \<longrightarrow> b_status box' = b_status dbox) \<and>
         b_updatedAt box' = now \<and>
         activities_table d' = activities_table d @ [a] \<and> a_boxId a = Some bid \<and>
         (status = Some ''loaded'' \<longrightarrow> a_type a = ''loaded'') \<and>
         (status \<noteq> Some ''loaded'' \<longrightarrow> a_type a = ''moved'') \<and>
         (\<exists>pre post. a_description a = pre @ depth_str (depth position) @ ''-'' @ horizontal_str (horizontal position) @ ''-'' @ vertical_str (vertical position) @ post)))"
proof (intro conjI impI)
  assume a: "MemStorage_inv s \<and> getBox bid s = Some box"
  then have box: "map_of (boxes s) bid = Some box" by (simp add: getBox_def)
  let ?box' = "box\<lparr> b_position := Some position,
                 b_status := (if truthy status then the status else b_status box),
                 b_updatedAt := now \<rparr>"
  let ?s1 = "s\<lparr> boxes := AList.update bid ?box' (boxes s) \<rparr>"
  let ?d = "position_activity bid box position status"
  let ?a = "\<lparr> a_id = activityCounter s, a_boxId = Some bid, a_type = ia_type ?d,
              a_description = ia_description ?d, a_timestamp = t \<rparr>"
  have r: "updateBoxPosition bid position status now t s = (Some ?box', snd (createActivity ?d t ?s1))"
    using box by (rule updateBoxPosition_result)
  have g: "getBox bid (snd (createActivity ?d t ?s1)) = Some ?box'"
    by (simp add: getBox_def update_conv')
  have "MemStorage_inv ?s1" using a box by (simp add: inv_boxes_update)
  then have acts: "activities (snd (createActivity ?d t ?s1)) = activities s @ [(a_id ?a, ?a)]"
    by (simp add: createActivity_appends)
  show "\<exists>box' s' a. updateBoxPosition bid position status now t s = (Some box', s') \<and>
         getBox bid s' = Some box' \<and> b_position box' = Some position \<and>
         (\<forall>v. status = Some v \<and> v \<noteq> [] \<longrightarrow> b_status box' = v) \<and>
         (status = None \<longrightarrow> b_status box' = b_status box) \<and>
         b_updatedAt box' = now \<and>
         activities s' = activities s @ [(a_id a, a)] \<and> a_boxId a = Some bid \<and>
         (status = Some ''loaded'' \<longrightarrow> a_type a = ''loaded'') \<and>
         (status \<noteq> Some ''loaded'' \<longrightarrow> a_type a = ''moved'') \<and>
         (\<exists>pre post. a_description a = pre @ depth_str (depth position) @ ''-'' @ horizontal_str (horizontal position) @ ''-'' @ vertical_str (vertical position) @ post)"
    apply (rule exI[of _ ?box'], rule exI[of _ "snd (createActivity ?d t ?s1)"], rule exI[of _ ?a])
    apply (intro conjI)
              apply (rule r)
             apply (rule g)
            apply simp
           apply (simp add: truthy_def)
          apply (simp add: truthy_def)
         apply simp
        apply (rule acts)
       apply simp
      apply (simp add: position_activity_type)
     apply (simp add: position_activity_type)
    apply (simp only: Activity.select_convs position_activity_description)
    done
next
  assume a: "DatabaseStorage_inv d \<and> db_getBox bid d = Some dbox"
  let ?f = "\<lambda>b. b\<lparr> b_position := Some position,
                 b_status := (if truthy status then the status else b_status b),
                 b_updatedAt := now \<rparr>"
  let ?d = "position_activity bid dbox position status"
  let ?a = "\<lparr> a_id = activities_id_seq d, a_boxId = Some bid, a_type = ia_type ?d,
              a_description = ia_description ?d, a_timestamp = t \<rparr>"
  let ?d' = "(snd (update_boxes ?f bid d))
       \<lparr> activities_id_seq := Suc (activities_id_seq d), activities_table := activities_table d @ [?a] \<rparr>"
  have r: "db_updateBoxPosition bid position status now t d = (Inr (Some (?f dbox)), ?d')"
    using a by (simp add: db_updateBoxPosition_ok)
  have "db_getBox bid (snd (update_boxes ?f bid d)) = Some (?f dbox)"
    using a by (simp add: update_boxes_getBox)
  then have g: "db_getBox bid ?d' = Some (?f dbox)"
    by (simp add: db_getBox_def)
  show "\<exists>box' d' a. db_updateBoxPosition bid position status now t d = (Inr (Some box'), d') \<and>
         db_getBox bid d' = Some box' \<and> b_position box' = Some position \<and>
         (\<forall>v. status = Some v \<and> v \<noteq> [] \<longrightarrow> b_status box' = v) \<and>
         (status = None \<longrightarrow> b_status box' = b_status dbox) \<and>
         b_updatedAt box' = now \<and>
         activities_table d' = activities_table d @ [a] \<and> a_boxId a = Some bid \<and>
         (status = Some ''loaded'' \<longrightarrow> a_type a = ''loaded'') \<and>
         (status \<noteq> Some ''loaded'' \<longrightarrow> a_type a = ''moved'') \<and>
         (\<exists>pre post. a_description a = pre @ depth_str (depth position) @ ''-'' @ horizontal_str (horizontal position) @ ''-'' @ vertical_str (vertical position) @ post)"
    apply (rule exI[of _ "?f dbox"], rule exI[of _ ?d'], rule exI[of _ ?a])
    apply (intro conjI)
              apply (rule r)
             apply (rule g)
            apply simp
           apply (simp add: truthy_def)
          apply (simp add: truthy_def)
         apply simp
        apply simp
       apply simp
      apply (simp add: position_activity_type)
     apply (simp add: position_activity_type)
    apply (simp only: Activity.select_convs position_activity_description)
    done
qed


theorem updateBoxPosition_sets_position_witness:
  "MemStorage_inv mem_created \<and> getBox 1 mem_created = Some created_box \<and>
   DatabaseStorage_inv db_created \<and> db_getBox 1 db_created = Some created_box \<and>
   (\<exists>box' s' a. updateBoxPosition 1 front_left_high (Some ''loaded'') 3 4 mem_created = (Some box', s') \<and>
       b_position box' = Some front_left_high \<and> b_status box' = ''loaded'' \<and> b_updatedAt box' = 3 \<and>
       activities s' = activities mem_created @ [(a_id a, a)] \<and> a_type a = ''loaded'') \<and>
   (\<exists>box' s' a. updateBoxPosition 1 front_left_high None 3 4 mem_created = (Some box', s') \<and>
       b_position box' = Some front_left_high \<and> b_status box' = b_status created_box \<and>
       activities s' = activities mem_created @ [(a_id a, a)] \<and> a_type a = ''moved'') \<and>
   (\<exists>box' d' a. db_updateBoxPosition 1 front_left_high (Some ''loaded'') 3 4 db_created = (Inr (Some box'), d') \<and>
       b_position box' = Some front_left_high \<and> b_status box' = ''loaded'' \<and> b_updatedAt box' = 3 \<and>
       activities_table d' = activities_table db_created @ [a] \<and> a_type a = ''loaded'') \<and>
   (\<exists>box' d' a. db_updateBoxPosition 1 front_left_high None 3 4 db_created = (Inr (Some box'), d') \<and>
       b_position box' = Some front_left_high \<and> b_status box' = b_status created_box \<and>
       activities_table d' = activities_table db_created @ [a] \<and> a_type a = ''moved'')"
proof -
  have hm: "MemStorage_inv mem_created \<and> getBox 1 mem_created = Some created_box" by code_simp
  have hd: "DatabaseStorage_inv db_created \<and> db_getBox 1 db_created = Some created_box" by code_simp
  note m = updateBoxPosition_sets_position[THEN conjunct1, rule_format, OF hm]
  note d = updateBoxPosition_sets_position[THEN conjunct2, rule_format, OF hd]
  have c1: "\<exists>box' s' a. updateBoxPosition 1 front_left_high (Some ''loaded'') 3 4 mem_created = (Some box', s') \<and>
       b_position box' = Some front_left_high \<and> b_status box' = ''loaded'' \<and> b_updatedAt box' = 3 \<and>
       activities s' = activities mem_created @ [(a_id a, a)] \<and> a_type a = ''loaded''"
    using m[of front_left_high "Some ''loaded''" 3 4] by simp (elim exE conjE, (intro exI conjI; assumption))
  have c2: "\<exists>box' s' a. updateBoxPosition 1 front_left_high None 3 4 mem_created = (Some box', s') \<and>
       b_position box' = Some front_left_high \<and> b_status box' = b_status created_box \<and>
       activities s' = activities mem_created @ [(a_id a, a)] \<and> a_type a = ''moved''"
    using m[of front_left_high None 3 4] by simp (elim exE conjE, (intro exI conjI; assumption))
  have c3: "\<exists>box' d' a. db_updateBoxPosition 1 front_left_high (Some ''loaded'') 3 4 db_created = (Inr (Some box'), d') \<and>
       b_position box' = Some front_left_high \<and> b_status box' = ''loaded'' \<and> b_updatedAt box' = 3 \<and>
       activities_table d' = activities_table db_created @ [a] \<and> a_type a = ''loaded''"
    using d[of front_left_high "Some ''loaded''" 3 4] by simp (elim exE conjE, (intro exI conjI; assumption))
  have c4: "\<exists>box' d' a. db_updateBoxPosition 1 front_left_high None 3 4 db_created = (Inr (Some box'), d') \<and>
       b_position box' = Some front_left_high \<and> b_status box' = b_status created_box \<and>
       activities_table d' = activities_table db_created @ [a] \<and> a_type a = ''moved''"
    using d[of front_left_high None 3 4] by simp (elim exE conjE, (intro exI conjI; assumption))
  show ?thesis
    using hm hd c1 c2 c3 c4 by (intro conjI) simp_all
qed

section \<open>Facts about the activities each operation appends\<close>












lemma insert_box_Inr_id:
  "(\<And>k. b_id (row k) = k) \<Longrightarrow> insert_box row s = (Inr box, s1) \<Longrightarrow> b_id box = boxes_id_seq s"
  by (auto simp: insert_box_def Let_def split: if_splits)








section \<open>C2: one activity per successful box mutation\<close>




section \<open>Facts about the two orderings\<close>




lemma order_by_desc_sorted:
  "sorted_wrt (\<lambda>a b. col b \<le> col a) (order_by_desc col rows)"
proof -
  have "sorted (map (\<lambda>r. - col r) (sort_key (\<lambda>r. - col r) rows))"
    by (rule sorted_sort_key)
  then show ?thesis
    by (simp add: order_by_desc_def sorted_map)
qed

lemma order_by_desc_mset: "mset (order_by_desc col rows) = mset rows"
  by (simp add: order_by_desc_def)

section \<open>C8: getActivities\<close>




section \<open>C3: deleting an owner that boxes refer to\<close>

lemma deleteOwner_guard:
  assumes "getOwner oid s = Some owner" and "(k, box) \<in> set (boxes s)"
    and "toLowerCase (b_owner box) = toLowerCase (o_name owner)"
  shows "deleteOwner oid s = (False, s)"
  using assms by (force simp: deleteOwner_def getOwner_def Let_def filter_empty_conv)

lemma db_deleteOwner_exact:
  "db_getOwner oid d = Some owner \<Longrightarrow>
   fst (db_deleteOwner oid d) \<longleftrightarrow> (\<forall>b\<in>set (boxes_table d). b_owner b \<noteq> o_name owner)"
  by (auto simp: db_deleteOwner_def Let_def filter_empty_conv)

text \<open>
  C3 at the failing input. The store holds the owner "Alex" (id 1) and one box whose owner
  is "alex"; the two names are equal case-insensitively. The database implementation
  compares with \<^verbatim>\<open>eq(boxes.owner, owner.name)\<close>: deleteOwner returns true and the owner
  is gone. The in-memory implementation lowercases both names: deleteOwner returns false
  and the store is unchanged.
\<close>

theorem db_deleteOwner_case_sensitive:
  "db_getOwner 1 db_alex = Some alex_owner \<and>
   map b_owner (boxes_table db_alex) = [''alex''] \<and>
   toLowerCase ''alex'' = toLowerCase (o_name alex_owner) \<and>
   fst (db_deleteOwner 1 db_alex) = True \<and>
   db_getOwner 1 (snd (db_deleteOwner 1 db_alex)) = None \<and>
   owners_table (snd (db_deleteOwner 1 db_alex)) = [] \<and>
   getOwner 1 mem_alex = Some alex_owner \<and>
   map (b_owner \<circ> snd) (boxes mem_alex) = [''alex''] \<and>
   deleteOwner 1 mem_alex = (False, mem_alex)"
  by code_simp

section \<open>C5: updateBox\<close>

lemma updateBox_merge:
  assumes "getBox bid s = Some box"
  shows "\<exists>box'. fst (updateBox bid boxData now t s) = Some box' \<and>
           getBox bid (snd (updateBox bid boxData now t s)) = Some box' \<and>
           b_boxNumber box' = (case pb_boxNumber boxData of None \<Rightarrow> b_boxNumber box | Some v \<Rightarrow> v) \<and>
           b_owner box' = (case pb_owner boxData of None \<Rightarrow> b_owner box | Some v \<Rightarrow> v) \<and>
           b_room box' = (case pb_room boxData of None \<Rightarrow> b_room box | Some v \<Rightarrow> v) \<and>
           b_contents box' = (case pb_contents boxData of None \<Rightarrow> b_contents box | Some v \<Rightarrow> v) \<and>
           b_status box' = (case pb_status boxData of None \<Rightarrow> b_status box | Some v \<Rightarrow> v) \<and>
           b_id box' = b_id box \<and> b_position box' = b_position box \<and>
           b_createdAt box' = b_createdAt box \<and> b_updatedAt box' = now"
  using assms
  by (simp add: getBox_def updateBox_def Let_def split_beta update_conv' typeSafeData_def)

lemma db_updateBox_ok:
  assumes "DatabaseStorage_inv s" and "db_getBox bid s = Some box"
  shows "db_updateBox bid boxData now t s =
    (Inr (Some ((typeSafeData boxData box)\<lparr> b_updatedAt := now \<rparr>)),
     (snd (update_boxes (\<lambda>b. (typeSafeData boxData b)\<lparr> b_updatedAt := now \<rparr>) bid s))
       \<lparr> activities_id_seq := Suc (activities_id_seq s),
         activities_table := activities_table s @
           [\<lparr> a_id = activities_id_seq s, a_boxId = Some bid, a_type = ''updated'',
              a_description = ''Box #'' @ show_int (b_boxNumber box) @ '' updated'',
              a_timestamp = t \<rparr>] \<rparr>)"
  unfolding db_updateBox_def
  using db_update_pattern[OF assms, where f = "\<lambda>b. (typeSafeData boxData b)\<lparr> b_updatedAt := now \<rparr>"
      and activityData = "\<lparr> ia_boxId = Some bid, ia_type = ''updated'',
                      ia_description = ''Box #'' @ show_int (b_boxNumber box) @ '' updated'' \<rparr>" and t = t]
  by (simp add: assms Let_def typeSafeData_def)

lemma db_updateBox_merge:
  assumes "DatabaseStorage_inv d" and "db_getBox bid d = Some box"
  shows "\<exists>box' d'. db_updateBox bid boxData now t d = (Inr (Some box'), d') \<and>
           db_getBox bid d' = Some box' \<and>
           b_boxNumber box' = (case pb_boxNumber boxData of None \<Rightarrow> b_boxNumber box | Some v \<Rightarrow> v) \<and>
           b_owner box' = (case pb_owner boxData of None \<Rightarrow> b_owner box | Some v \<Rightarrow> v) \<and>
           b_room box' = (case pb_room boxData of None \<Rightarrow> b_room box | Some v \<Rightarrow> v) \<and>
           b_contents box' = (case pb_contents boxData of None \<Rightarrow> b_contents box | Some v \<Rightarrow> v) \<and>
           b_status box' = (case pb_status boxData of None \<Rightarrow> b_status box | Some v \<Rightarrow> v) \<and>
           b_id box' = b_id box \<and> b_position box' = b_position box \<and>
           b_createdAt box' = b_createdAt box \<and> b_updatedAt box' = now"
proof -
  let ?f = "\<lambda>b. (typeSafeData boxData b)\<lparr> b_updatedAt := now \<rparr>"
  have "db_getBox bid (snd (update_boxes ?f bid d)) = Some (?f box)"
    using assms by (simp add: update_boxes_getBox typeSafeData_def)
  then show ?thesis
    using assms by (simp add: db_updateBox_ok db_getBox_def) (simp add: typeSafeData_def)
qed

text \<open>
  C5 at the failing input. updateBox with \<^verbatim>\<open>{status: "bogus"}\<close> on the box of the
  scenario: "bogus" is none of the six values, and both implementations return and store
  the box with status "bogus" (\<^verbatim>\<open>boxData.status as BoxStatus\<close> checks nothing), where
  createBox with the same status stores "packed".
\<close>

theorem updateBox_stores_invalid_status:
  "getBox 1 mem_created = Some created_box \<and>
   ''bogus'' \<notin> set BoxStatus_values \<and>
   fst (updateBox 1 bogus 5 6 mem_created) = Some (created_box\<lparr> b_status := ''bogus'', b_updatedAt := 5 \<rparr>) \<and>
   getBox 1 (snd (updateBox 1 bogus 5 6 mem_created)) =
     Some (created_box\<lparr> b_status := ''bogus'', b_updatedAt := 5 \<rparr>) \<and>
   db_getBox 1 db_created = Some created_box \<and>
   fst (db_updateBox 1 bogus 5 6 db_created) =
     Inr (Some (created_box\<lparr> b_status := ''bogus'', b_updatedAt := 5 \<rparr>)) \<and>
   db_getBox 1 (snd (db_updateBox 1 bogus 5 6 db_created)) =
     Some (created_box\<lparr> b_status := ''bogus'', b_updatedAt := 5 \<rparr>) \<and>
   b_status (fst (createBox (kitchen_box\<lparr> ib_status := Some ''bogus'' \<rparr>) 5 6 mem_created)) = ''packed''"
  by code_simp

section \<open>C6: getBoxes\<close>

lemma db_getBoxes_sorted:
  "sorted_wrt (\<lambda>a b. b_updatedAt b \<le> b_updatedAt a) (db_getBoxes d) \<and>
   mset (db_getBoxes d) = mset (boxes_table d)"
  by (simp add: db_getBoxes_def order_by_desc_sorted order_by_desc_mset)

text \<open>
  C6 at the failing input. Two boxes, created at times 1 and 3 and not updated since.
  The in-memory getBoxes returns them in insertion order, the older one first
  (updatedAt 1, then 3); the database getBoxes returns the newer one first.
\<close>

theorem getBoxes_insertion_order:
  "map (\<lambda>b. (b_id b, b_updatedAt b)) (getBoxes mem_two_boxes) = [(1, 1), (2, 3)] \<and>
   map (\<lambda>b. (b_id b, b_updatedAt b)) (db_getBoxes db_two_boxes) = [(2, 3), (1, 1)]"
  by code_simp

section \<open>C7: deleteBox\<close>

lemma matching_keys_Cons:
  "fst ` {e \<in> set (e0 # qs). P (snd e)} =
     (if P (snd e0) then insert (fst e0) (fst ` {e \<in> set qs. P (snd e)}) else fst ` {e \<in> set qs. P (snd e)})"
proof -
  have "{e \<in> set (e0 # qs). P (snd e)} =
      (if P (snd e0) then insert e0 {e \<in> set qs. P (snd e)} else {e \<in> set qs. P (snd e)})"
    by auto
  then show ?thesis by simp
qed

lemma fold_delete_filter:
  "fold (\<lambda>(qrId, qrCode) m. if P qrCode then AList.delete qrId m else m) qs m =
     filter (\<lambda>(k, _). k \<notin> fst ` {e \<in> set qs. P (snd e)}) m"
proof (induction qs arbitrary: m)
  case Nil
  then show ?case by simp
next
  case (Cons e qs)
  obtain k q where e: "e = (k, q)" by (cases e)
  show ?case
    unfolding matching_keys_Cons
    by (auto simp: e Cons.IH AList.delete_eq intro!: filter_cong)
qed

lemma deleteQrCodesOf_removed:
  "(k, q) \<in> set (deleteQrCodesOf bid qs) \<Longrightarrow> q_boxId q \<noteq> bid \<and> (k, q) \<in> set qs"
  by (force simp: deleteQrCodesOf_def fold_delete_filter)

lemma deleteBox_existing:
  assumes inv: "MemStorage_inv s" and box: "getBox bid s = Some box"
  shows "fst (deleteBox bid t s) \<and> getBox bid (snd (deleteBox bid t s)) = None \<and>
         (\<forall>e\<in>set (qrCodes (snd (deleteBox bid t s))). q_boxId (snd e) \<noteq> bid) \<and>
         (\<exists>a. activities (snd (deleteBox bid t s)) = activities s @ [(a_id a, a)] \<and>
              a_type a = ''deleted'' \<and> a_boxId a = Some bid)"
proof -
  let ?s2 = "s\<lparr> boxes := AList.delete bid (boxes s), qrCodes := deleteQrCodesOf bid (qrCodes s) \<rparr>"
  let ?d = "\<lparr> ia_boxId = Some bid, ia_type = ''deleted'',
              ia_description = ''Box #'' @ show_int (b_boxNumber box) @ '' deleted'' \<rparr>"
  have r: "deleteBox bid t s = (True, snd (createActivity ?d t ?s2))"
    using box by (simp add: deleteBox_def getBox_def Let_def split_beta)
  have "MemStorage_inv ?s2"
    using inv by (simp add: MemStorage_inv_def keys_below_delete deleteQrCodesOf_def fold_delete_keys_below)
  then have acts: "activities (snd (createActivity ?d t ?s2)) = activities s @
      [(activityCounter s, \<lparr> a_id = activityCounter s, a_boxId = Some bid, a_type = ''deleted'',
          a_description = ''Box #'' @ show_int (b_boxNumber box) @ '' deleted'', a_timestamp = t \<rparr>)]"
    by (simp add: createActivity_appends)
  have q: "\<forall>e\<in>set (qrCodes (snd (createActivity ?d t ?s2))). q_boxId (snd e) \<noteq> bid"
    using deleteQrCodesOf_removed[of _ _ bid "qrCodes s"] by fastforce
  have g: "getBox bid (snd (createActivity ?d t ?s2)) = None"
    by (simp add: getBox_def delete_conv')
  show ?thesis
    unfolding r using acts q g by simp
qed

lemma deleteBox_absent:
  "getBox bid s = None \<Longrightarrow> deleteBox bid t s = (False, s)"
  "db_getBox bid d = None \<Longrightarrow> db_deleteBox bid t d = (Inr False, d)"
  by (simp_all add: getBox_def deleteBox_def db_deleteBox_def)

text \<open>
  C7 at the failing input. The database holds box 1 (loaded) and its two activities.
  deleteBox deletes the box, the cascade deletes its activities, and the insert of the
  "deleted" activity with \<^verbatim>\<open>box_id = 1\<close> is rejected by the foreign key: the operation
  fails, the box is gone and no activity is left. The in-memory deleteBox on the same
  scenario returns true and appends the "deleted" activity to the two that were there.
\<close>

theorem db_deleteBox_foreign_key:
  "db_getBox 1 db_loaded = Some loaded_box \<and>
   length (activities_table db_loaded) = 2 \<and>
   fst (db_deleteBox 1 5 db_loaded) = Inl ForeignKeyViolation \<and>
   db_getBox 1 (snd (db_deleteBox 1 5 db_loaded)) = None \<and>
   activities_table (snd (db_deleteBox 1 5 db_loaded)) = [] \<and>
   getBox 1 mem_loaded = Some loaded_box \<and>
   fst (deleteBox 1 5 mem_loaded) = True \<and>
   getBox 1 (snd (deleteBox 1 5 mem_loaded)) = None \<and>
   map (\<lambda>(k, a). (a_boxId a, a_type a)) (activities (snd (deleteBox 1 5 mem_loaded))) =
     [(Some 1, ''created''), (Some 1, ''loaded''), (Some 1, ''deleted'')]"
  by code_simp

end
